theory Spec2Isabelle
  imports Main
begin

section \<open>Status classification (src/utils/index.ts)\<close>

text \<open>
  A status code is a JavaScript number that the wire response reports; the model takes the
  integers. \<open>MappedHttpStatus\<close> is the union type of the source, with its five members;
  \<open>mapStatusToResponseType\<close> never produces \<open>Warning\<close>.
\<close>

datatype MappedHttpStatus = Success | Info | Warning | Error | Redirect

definition isClientError :: "int \<Rightarrow> bool" where
  "isClientError statusCode \<longleftrightarrow> statusCode \<ge> 400 \<and> statusCode < 500"

definition isServerError :: "int \<Rightarrow> bool" where
  "isServerError statusCode \<longleftrightarrow> statusCode \<ge> 500 \<and> statusCode < 600"

definition mapStatusToResponseType :: "int \<Rightarrow> MappedHttpStatus" where
  "mapStatusToResponseType statusCode =
     (if statusCode \<ge> 200 \<and> statusCode < 300 then Success
      else if statusCode \<ge> 100 \<and> statusCode < 200 then Info
      else if statusCode \<ge> 300 \<and> statusCode < 400 then Redirect
      else Error)"

section \<open>Wire responses and the response wrapper (src/core/FetchResponse.ts)\<close>

text \<open>
  The platform's \<open>Response\<close> object, reduced to what the wrapper and the two parsing helpers
  read from it: the status, the \<open>redirected\<close> flag, whether the \<open>content-length\<close> header is
  the string \<open>0\<close>, the class in which the tests of \<open>parseHttpErrorResponse\<close> put the
  \<open>content-type\<close> header (in the order of the source: JSON first, then HTML, then XML), and
  the body readers that reject (\<open>response.json()\<close> rejects on a body that is not JSON).
  \<open>label\<close> stands for the rest of the object (its identity).
\<close>

datatype HttpResponseType = Json | Text | Blob | ArrayBuffer | FormData | Stream

datatype content_kind = JsonContent | HtmlContent | XmlContent | OtherContent

datatype js_error = JsError (name: string) (message: string)

record wire_response =
  status :: int
  redirected :: bool
  content_length_zero :: bool
  content_type :: content_kind
  faults :: "(HttpResponseType \<times> js_error) list"
  label :: nat

text \<open>
  The data of a wrapper: the body as one of the readers returned it, the empty string, the
  status text, or a value made by a listener.
\<close>

datatype body_data = Body HttpResponseType | EmptyText | StatusText | Custom nat

text \<open>
  \<open>HttpResponse\<close> holds the wire response twice: \<open>response\<close> is the read-only field of
  \<open>MapStatusToResponseType\<close> that every predicate reads, \<open>original\<close> is the field
  \<open>_response\<close> of \<open>FetchResponse\<close> that \<open>setOriginalResponse\<close> replaces.
\<close>

record http_response =
  response :: wire_response
  original :: wire_response
  data :: body_data

definition HttpResponse :: "wire_response \<Rightarrow> body_data \<Rightarrow> http_response" where
  "HttpResponse r d = \<lparr>response = r, original = r, data = d\<rparr>"

definition statusCode :: "http_response \<Rightarrow> int" where
  "statusCode w = status (response w)"

definition serverInfo :: "http_response \<Rightarrow> bool" where
  "serverInfo w \<longleftrightarrow> statusCode w < 200"

definition succeeded :: "http_response \<Rightarrow> bool" where
  "succeeded w \<longleftrightarrow> statusCode w \<ge> 200 \<and> statusCode w \<le> 299"

definition clientError :: "http_response \<Rightarrow> bool" where
  "clientError w \<longleftrightarrow> isClientError (statusCode w)"

definition serverError :: "http_response \<Rightarrow> bool" where
  "serverError w \<longleftrightarrow> isServerError (statusCode w)"

definition redirected_getter :: "http_response \<Rightarrow> bool" where
  "redirected_getter w \<longleftrightarrow> redirected (response w)"

definition failed :: "http_response \<Rightarrow> bool" where
  "failed w \<longleftrightarrow> \<not> succeeded w \<and> \<not> redirected_getter w \<and> \<not> serverInfo w"

definition status_getter :: "http_response \<Rightarrow> int" where
  "status_getter w = statusCode w"

definition setOriginalResponse :: "wire_response \<Rightarrow> http_response \<Rightarrow> http_response" where
  "setOriginalResponse newResponse w = w\<lparr>original := newResponse\<rparr>"

definition setData :: "body_data \<Rightarrow> http_response \<Rightarrow> http_response" where
  "setData d w = w\<lparr>data := d\<rparr>"


section \<open>Structured errors (HttpFetchError)\<close>

text \<open>
  The message of an \<open>HttpFetchError\<close> is one of six texts of the source, two of them with
  the attempt budget and the message of the caught error spliced in:
  \<^item> \<open>RequestWasCancelled\<close>: "Request was cancelled" (thrown by \<open>handle\<close>);
  \<^item> \<open>RequestWasCancelledByUser\<close>: "Request was cancelled by user" (passed by \<open>cancel\<close>
    to the reject handle of the interception promise);
  \<^item> \<open>RequestTimedOut\<close>: "Request timed out because the server did not respond within the
    specified time.";
  \<^item> \<open>NetworkErrorAfter n m\<close>: "Network error after n attempts: m";
  \<^item> \<open>UnexpectedErrorAfter n m\<close>: "Unexpected error after n attempts: m";
  \<^item> \<open>UnexpectedFallthrough\<close>: "Unexpected fallthrough in httpFetchHandler".

  An \<open>error\<close> is an \<open>HttpFetchError\<close> with its message, URL and cause, or any other
  exception (\<open>Thrown\<close>): one that the platform or a listener raised.
\<close>

datatype message_text =
    RequestWasCancelled
  | RequestWasCancelledByUser
  | RequestTimedOut
  | NetworkErrorAfter int string
  | UnexpectedErrorAfter int string
  | UnexpectedFallthrough

datatype error =
    HttpFetchError message_text string "js_error option"
  | Thrown js_error

definition cancellation_flavoured :: "error \<Rightarrow> bool" where
  "cancellation_flavoured e =
     (case e of
        HttpFetchError m u c \<Rightarrow> m = RequestWasCancelled \<or> m = RequestWasCancelledByUser
      | Thrown x \<Rightarrow> False)"

section \<open>The parsing helpers (src/core/FetchResponse.ts)\<close>

text \<open>
  \<open>responseTypeHandle\<close> awaits the body reader of the requested type and wraps what it
  returns; a reader that rejects makes the helper reject (\<open>Inl\<close>). The stream type reads
  \<open>response.body\<close> and cannot reject. The \<open>default\<close> branch of the source is for strings
  outside \<open>HttpResponseType\<close>, which the type excludes.
\<close>

definition responseTypeHandle :: "HttpResponseType \<Rightarrow> wire_response \<Rightarrow> js_error + http_response" where
  "responseTypeHandle rt r =
     (if rt = Stream then Inr (HttpResponse r (Body Stream))
      else case map_of (faults r) rt of
             Some e \<Rightarrow> Inl e
           | None \<Rightarrow> Inr (HttpResponse r (Body rt)))"

definition parseHttpErrorResponse :: "wire_response \<Rightarrow> js_error + http_response" where
  "parseHttpErrorResponse r =
     (if status r = 204 \<or> content_length_zero r then Inr (HttpResponse r EmptyText)
      else case content_type r of
             JsonContent \<Rightarrow> responseTypeHandle Json r
           | HtmlContent \<Rightarrow> responseTypeHandle Text r
           | XmlContent \<Rightarrow> responseTypeHandle Text r
           | OtherContent \<Rightarrow> Inr (HttpResponse r StatusText))"

section \<open>The network primitive\<close>

text \<open>
  \<open>fetch\<close> is the platform's primitive; the model states its contract. An \<open>exchange\<close>
  says what happens on the wire in one attempt: the \<open>reply\<close> that the network gives when
  nothing aborts the call (a response, a rejection, or nothing at all), whether that reply is
  \<open>late\<close> (it arrives only after the deadline of the attempt, which matters when a timer
  runs), and whether the user calls \<open>cancel()\<close> on the request while the call is in flight
  and before the reply (\<open>user_cancels\<close>).

  The signal that \<open>fetch\<close> is given decides what can abort it: the signal of the request's
  own controller (\<open>SharedToken\<close>), the signal of the controller that the attempt created for
  its timer (\<open>AttemptTimer\<close>), or none. A call with a signal that is already aborted rejects
  with \<open>AbortError\<close> and sends nothing. The trace records every call of the primitive
  (\<open>FetchCall\<close>) and every call that goes on the wire (\<open>Exchange\<close>).
\<close>

datatype signal_src = NoSignal | SharedToken | AttemptTimer

datatype reply = Responds wire_response | Fails js_error | Silent

record exchange =
  reply :: reply
  late :: bool
  user_cancels :: bool

datatype fetch_result = Resolved wire_response | Rejected js_error | Hangs

datatype phase = REQUEST | BEFORE_SEND | RESPONSE | ERROR | TERMINATE

datatype action =
    SetTimer int
  | ClearTimer
  | FetchCall nat signal_src
  | Exchange nat
  | Sleep int
  | Prepare
  | Started
  | Finished
  | Errored error
  | SucceededWith http_response
  | FailedWith http_response
  | PreventedWith http_response
  | Dispatch phase "http_response option" "error option"

definition AbortError :: js_error where
  "AbortError = JsError ''AbortError'' ''This operation was aborted''"

definition fetch :: "signal_src \<Rightarrow> bool \<Rightarrow> nat \<Rightarrow> exchange \<Rightarrow> action list \<times> fetch_result" where
  "fetch sig tripped attempt ex =
     (if sig = SharedToken \<and> tripped then ([FetchCall attempt sig], Rejected AbortError)
      else if sig = SharedToken \<and> user_cancels ex
        then ([FetchCall attempt sig, Exchange attempt], Rejected AbortError)
      else if sig = AttemptTimer \<and> (late ex \<or> reply ex = Silent)
        then ([FetchCall attempt sig, Exchange attempt], Rejected AbortError)
      else ([FetchCall attempt sig, Exchange attempt],
            case reply ex of
              Responds r \<Rightarrow> Resolved r
            | Fails e \<Rightarrow> Rejected e
            | Silent \<Rightarrow> Hangs))"

section \<open>The retry engine (safeFetch)\<close>

text \<open>
  The options that the engine reads: the keys that \<open>safeFetch\<close> destructures (the
  interface itself is declared in \<open>src/types\<close>) and the \<open>signal\<close> key of \<open>RequestInit\<close>.
  An absent key is \<open>None\<close>; the numbers are taken as integers. \<open>signal\<close> says whether the
  options carry the signal of the request's controller. The verb, the body and the headers
  do not reach the control flow and are left out.
\<close>

record FetchRequestOptions =
  url :: string
  timeout :: "int option"
  retryCount :: "int option"
  responseType :: "HttpResponseType option"
  retryOnStatusCode :: "bool option"
  keepalive :: "bool option"
  signal :: bool

text \<open>The local variables of \<open>safeFetch\<close>, after the defaults and the adjustment.\<close>

record locals =
  l_url :: string
  l_timeout :: int
  l_retryCount :: int
  l_responseType :: HttpResponseType
  l_retryOnStatusCode :: bool
  l_keepalive :: bool
  l_signal :: bool

definition or_default :: "'a \<Rightarrow> 'a option \<Rightarrow> 'a" where
  "or_default d x = (case x of None \<Rightarrow> d | Some v \<Rightarrow> v)"

definition destructure :: "FetchRequestOptions \<Rightarrow> locals" where
  "destructure opts =
     (let ka = or_default False (keepalive opts);
          t0 = or_default 45000 (timeout opts);
          rc0 = or_default 3 (retryCount opts)
      in \<lparr>l_url = url opts,
          l_timeout = (if ka then 0 else t0),
          l_retryCount = (if ka then 1 else if rc0 < 2 \<and> retryCount opts \<noteq> None then 3 else rc0),
          l_responseType = or_default Json (responseType opts),
          l_retryOnStatusCode = or_default False (retryOnStatusCode opts),
          l_keepalive = ka,
          l_signal = signal opts\<rparr>)"

fun starts_with :: "string \<Rightarrow> string \<Rightarrow> bool" where
  "starts_with s [] = True"
| "starts_with [] (p # ps) = False"
| "starts_with (c # s) (p # ps) = (c = p \<and> starts_with s ps)"

fun js_includes :: "string \<Rightarrow> string \<Rightarrow> bool" where
  "js_includes [] sub = (sub = [])"
| "js_includes (c # s) sub = (starts_with (c # s) sub \<or> js_includes s sub)"

datatype outcome = Returned http_response | Threw error | Pending

datatype step = Done outcome | Continue

text \<open>
  The \<open>catch\<close> block of one attempt. \<open>timed\<close> says whether the attempt set a timer
  (\<open>timeoutId\<close> is defined). An \<open>AbortError\<close> that is not on the last attempt falls out of
  the block without a delay; the other two kinds wait and \<open>continue\<close>.
\<close>

definition catch_attempt :: "locals \<Rightarrow> nat \<Rightarrow> bool \<Rightarrow> js_error \<Rightarrow> action list \<times> step" where
  "catch_attempt L attempt timed e =
     (let clear = (if timed then [ClearTimer] else []);
          isLastAttempt = (int attempt = l_retryCount L - 1)
      in if name e = ''AbortError'' then
           (if isLastAttempt
            then (clear, Done (Threw (HttpFetchError RequestTimedOut (l_url L) (Some e))))
            else (clear, Continue))
         else if js_includes (message e) ''NetworkError'' \<or> js_includes (message e) ''Failed to fetch'' then
           (if isLastAttempt
            then (clear, Done (Threw (HttpFetchError
                    (NetworkErrorAfter (l_retryCount L) (message e)) (l_url L) (Some e))))
            else (clear @ [Sleep (1000 * (int attempt + 1))], Continue))
         else
           (if isLastAttempt
            then (clear, Done (Threw (HttpFetchError
                    (UnexpectedErrorAfter (l_retryCount L) (message e)) (l_url L) (Some e))))
            else (clear @ [Sleep (500 * (int attempt + 1))], Continue)))"

text \<open>
  An attempt sets its timer when the timeout is positive and keep-alive is off; it then
  overwrites \<open>fetchParams.signal\<close> with the signal of the controller that it created for
  the timer. Otherwise \<open>fetchParams.signal\<close> is what the options carried.
\<close>

definition timer_set :: "locals \<Rightarrow> bool" where
  "timer_set L \<longleftrightarrow> \<not> l_keepalive L \<and> l_timeout L > 0"

definition passed_signal :: "locals \<Rightarrow> signal_src" where
  "passed_signal L = (if timer_set L then AttemptTimer else if l_signal L then SharedToken else NoSignal)"

text \<open>
  The rest of the \<open>try\<close> block once \<open>fetch\<close> has resolved with \<open>r\<close>. The two parsing
  helpers are awaited inside the \<open>try\<close>, so a helper that rejects lands in the \<open>catch\<close>.
\<close>

definition on_wire_response :: "locals \<Rightarrow> nat \<Rightarrow> wire_response \<Rightarrow> action list \<times> step" where
  "on_wire_response L attempt r =
     (let clear = (if timer_set L then [ClearTimer] else [])
      in if mapStatusToResponseType (status r) = Error then
           (if isClientError (status r)
               \<or> (isServerError (status r) \<and> \<not> l_retryOnStatusCode L)
               \<or> int attempt = l_retryCount L - 1
            then (case parseHttpErrorResponse r of
                    Inr w \<Rightarrow> (clear, Done (Returned w))
                  | Inl e \<Rightarrow>
                      (case catch_attempt L attempt (timer_set L) e of
                         (tr, st) \<Rightarrow> (clear @ tr, st)))
            else (clear @ [Sleep (500 * (int attempt + 1))], Continue))
         else (case responseTypeHandle (l_responseType L) r of
                 Inr w \<Rightarrow> (clear, Done (Returned w))
               | Inl e \<Rightarrow>
                   (case catch_attempt L attempt (timer_set L) e of
                      (tr, st) \<Rightarrow> (clear @ tr, st))))"

text \<open>The body of the \<open>for\<close> loop: one attempt.\<close>

definition attempt_body :: "locals \<Rightarrow> exchange \<Rightarrow> nat \<Rightarrow> bool \<Rightarrow> action list \<times> step" where
  "attempt_body L ex attempt tripped =
     (let arm = (if timer_set L then [SetTimer (l_timeout L)] else [])
      in case fetch (passed_signal L) tripped attempt ex of
           (wire, Hangs) \<Rightarrow> (arm @ wire, Done Pending)
         | (wire, Rejected e) \<Rightarrow>
             (case catch_attempt L attempt (timer_set L) e of
                (tr, st) \<Rightarrow> (arm @ wire @ tr, st))
         | (wire, Resolved r) \<Rightarrow>
             (case on_wire_response L attempt r of
                (tr, st) \<Rightarrow> (arm @ wire @ tr, st)))"

text \<open>
  The loop. \<open>net\<close> gives the exchange of each attempt; \<open>tripped\<close> is the state of the
  request's controller when the attempt starts, and a \<open>cancel()\<close> of the user during an
  attempt trips it for the attempts that follow. The result is the trace, the outcome and the
  state of the controller at the end.
\<close>

function attempts :: "locals \<Rightarrow> (nat \<Rightarrow> exchange) \<Rightarrow> nat \<Rightarrow> bool \<Rightarrow> action list \<times> outcome \<times> bool" where
  "attempts L net attempt tripped =
     (if int attempt < l_retryCount L then
        (case attempt_body L (net attempt) attempt tripped of
           (tr, Done out) \<Rightarrow> (tr, out, tripped \<or> user_cancels (net attempt))
         | (tr, Continue) \<Rightarrow>
             (case attempts L net (Suc attempt) (tripped \<or> user_cancels (net attempt)) of
                (tr', out, tripped') \<Rightarrow> (tr @ tr', out, tripped')))
      else ([], Threw (HttpFetchError UnexpectedFallthrough (l_url L) None), tripped))"
  by pat_completeness auto
termination
  by (relation "measure (\<lambda>(L, net, attempt, tripped). nat (l_retryCount L - int attempt))") auto

declare attempts.simps [simp del]

definition safeFetch :: "FetchRequestOptions \<Rightarrow> (nat \<Rightarrow> exchange) \<Rightarrow> bool \<Rightarrow> action list \<times> outcome \<times> bool" where
  "safeFetch fetchRequestOptions net tripped = attempts (destructure fetchRequestOptions) net 0 tripped"

section \<open>The request and its cancellation (FetchRequest)\<close>

text \<open>
  The private fields of a \<open>FetchRequest\<close> that \<open>handle\<close> and \<open>cancel\<close> read and write.
  \<open>p_abortController\<close> is \<open>None\<close> for \<open>null\<close> and \<open>Some b\<close> for a controller whose
  signal has the \<open>aborted\<close> flag \<open>b\<close>; the constructor installs a fresh controller.
\<close>

record FetchRequest =
  p_abortController :: "bool option"
  p_isCancelled :: bool
  p_input :: string
  p_fetchRequestOptions :: FetchRequestOptions

definition construct :: "FetchRequestOptions \<Rightarrow> FetchRequest" where
  "construct opts =
     \<lparr>p_abortController = Some False, p_isCancelled = False, p_input = url opts,
      p_fetchRequestOptions = opts\<rparr>"

text \<open>
  \<open>cancel\<close> returns the new state and, when it acted, the reason that it passes to the
  reject handle of the interception promise.
\<close>

definition cancel :: "FetchRequest \<Rightarrow> FetchRequest \<times> error option" where
  "cancel s =
     (if \<not> p_isCancelled s \<and> p_abortController s \<noteq> None
      then (s\<lparr>p_isCancelled := True, p_abortController := Some True\<rparr>,
            Some (HttpFetchError RequestWasCancelledByUser (p_input s) None))
      else (s, None))"

definition isCancelled :: "FetchRequest \<Rightarrow> bool" where
  "isCancelled s = p_isCancelled s"

section \<open>The event bus and the lifecycle (FetchRequest.handle)\<close>

text \<open>
  The event bus is an external collaborator: \<open>dispatch\<close> runs the listeners of a phase on a
  fresh event and returns it. An \<open>effect\<close> is what the listeners of one dispatch did: they
  raised (then \<open>dispatch\<close> raises and the event is lost), or they returned, having set a
  response on the event (\<open>supplied\<close>), prevented the default action (\<open>prevents\<close>), set a new
  URL (REQUEST) or left new fetch options on the event (BEFORE_SEND, after the merge).

  When the REQUEST event had its default action prevented, \<open>handle\<close> waits for the
  interception promise; \<open>interception\<close> says how that wait ends: a listener resolves the
  promise, a listener rejects it, the user calls \<open>cancel()\<close> during the wait, or nothing
  ever settles it.

  The \<open>environment\<close> of one \<open>handle()\<close> call gives the effect of each dispatch (the ERROR
  phase is dispatched from two places, each with its own effect) and the exchanges of the
  network. The hooks of the delegate return nothing and are taken not to raise. The user
  calls \<open>cancel()\<close> where \<open>handle\<close> is suspended: before the call, during the wait for the
  interception, and while a network call is in flight.
\<close>

record effect =
  raises :: "error option"
  supplied :: "http_response option"
  prevents :: bool
  new_url :: "string option"
  new_options :: "FetchRequestOptions option"

datatype interception = ResolvedByListener | RejectedByListener error | CancelledWhileWaiting | NeverSettled

record environment =
  on_request :: effect
  interception :: interception
  on_before_send :: effect
  network :: "nat \<Rightarrow> exchange"
  on_response :: effect
  on_error :: effect
  on_error_check :: effect
  on_terminate :: effect

text \<open>
  Phase 1. The result is the state, the trace and, when \<open>handle\<close> ends here, how it ends:
  this code runs before the \<open>try\<close>, so an exception leaves \<open>handle\<close> at once.
\<close>

definition dispatchRequestEvent :: "FetchRequest \<Rightarrow> environment \<Rightarrow> FetchRequest \<times> action list \<times> outcome option" where
  "dispatchRequestEvent s env =
     (case raises (on_request env) of
        Some e \<Rightarrow> (s, [Dispatch REQUEST None None], Some (Threw e))
      | None \<Rightarrow>
          (let s1 = s\<lparr>p_input := or_default (p_input s) (new_url (on_request env))\<rparr>
           in if prevents (on_request env) then
                (case interception env of
                   ResolvedByListener \<Rightarrow> (s1, [Dispatch REQUEST None None], None)
                 | RejectedByListener e \<Rightarrow> (s1, [Dispatch REQUEST None None], Some (Threw e))
                 | CancelledWhileWaiting \<Rightarrow>
                     (case cancel s1 of
                        (s2, Some e) \<Rightarrow> (s2, [Dispatch REQUEST None None], Some (Threw e))
                      | (s2, None) \<Rightarrow> (s2, [Dispatch REQUEST None None], Some Pending))
                 | NeverSettled \<Rightarrow> (s1, [Dispatch REQUEST None None], Some Pending))
              else (s1, [Dispatch REQUEST None None], None)))"

text \<open>Phase 3, with the report to the delegate. A listener that raises makes it raise.\<close>

definition dispatchResponseEvent :: "environment \<Rightarrow> http_response \<Rightarrow> action list \<times> (error + http_response)" where
  "dispatchResponseEvent env fetchResponse =
     (case raises (on_response env) of
        Some e \<Rightarrow> ([Dispatch RESPONSE (Some fetchResponse) None], Inl e)
      | None \<Rightarrow>
          (let final = or_default fetchResponse (supplied (on_response env))
           in ([Dispatch RESPONSE (Some fetchResponse) None,
                if prevents (on_response env) then PreventedWith final
                else if succeeded fetchResponse \<or> serverInfo fetchResponse then SucceededWith final
                else FailedWith final],
               Inr final)))"

text \<open>
  The \<open>try\<close> block. It ends with a response to return, with an exception for the \<open>catch\<close>
  block, or it never ends (the network call hangs). The second component of the result is
  the variable \<open>fetchResponse\<close> as the block leaves it.
\<close>

datatype try_result = Normal http_response | Raised error | Stuck

definition response_phase :: "FetchRequest \<Rightarrow> environment \<Rightarrow> action list \<Rightarrow> http_response
    \<Rightarrow> FetchRequest \<times> action list \<times> http_response option \<times> try_result" where
  "response_phase s env tr w =
     (case dispatchResponseEvent env w of
        (tr', Inl e) \<Rightarrow> (s, tr @ tr', Some w, Raised e)
      | (tr', Inr w') \<Rightarrow> (s, tr @ tr', Some w', Normal w'))"

text \<open>
  The network invocation of the \<open>try\<close> block: the signal of the request's controller
  is written into the options, and the engine runs. A \<open>cancel()\<close> of the user while the
  engine runs is a call of \<open>cancel\<close> on the request.
\<close>

definition invoke_network :: "FetchRequest \<Rightarrow> environment \<Rightarrow> FetchRequest \<times> action list \<times> outcome" where
  "invoke_network s env =
     (let s2 = (if p_abortController s \<noteq> None
                then s\<lparr>p_fetchRequestOptions := (p_fetchRequestOptions s)\<lparr>signal := True\<rparr>\<rparr>
                else s);
          tripped = (p_abortController s2 = Some True)
      in case safeFetch (p_fetchRequestOptions s2) (network env) tripped of
           (tr, out, tripped') \<Rightarrow>
             (if tripped' \<and> \<not> tripped then fst (cancel s2) else s2, tr, out))"

definition try_block :: "FetchRequest \<Rightarrow> environment
    \<Rightarrow> FetchRequest \<times> action list \<times> http_response option \<times> try_result" where
  "try_block s env =
     (case supplied (on_request env) of
        Some w \<Rightarrow> response_phase s env [Started] w
      | None \<Rightarrow>
          (case raises (on_before_send env) of
             Some e \<Rightarrow> (s, [Started, Dispatch BEFORE_SEND None None], None, Raised e)
           | None \<Rightarrow>
               (let s1 = s\<lparr>p_fetchRequestOptions :=
                            or_default (p_fetchRequestOptions s) (new_options (on_before_send env))\<rparr>
                in case supplied (on_before_send env) of
                     Some w \<Rightarrow> response_phase s1 env [Started, Dispatch BEFORE_SEND None None] w
                   | None \<Rightarrow>
                       (case invoke_network s1 env of
                          (s3, tr, Pending) \<Rightarrow>
                            (s3, [Started, Dispatch BEFORE_SEND None None] @ tr, None, Stuck)
                        | (s3, tr, Threw e) \<Rightarrow>
                            (s3, [Started, Dispatch BEFORE_SEND None None] @ tr, None, Raised e)
                        | (s3, tr, Returned w) \<Rightarrow>
                            response_phase s3 env ([Started, Dispatch BEFORE_SEND None None] @ tr) w))))"

text \<open>
  The \<open>catch\<close> block: phase 4, then \<open>willDelegateErrorHandling\<close>, which builds a second
  error event and dispatches it. The result is the trace, the variables \<open>fetchResponse\<close>
  and \<open>error\<close> as the block leaves them, and the completion of the block.
\<close>

definition catch_block :: "environment \<Rightarrow> http_response option \<Rightarrow> error
    \<Rightarrow> action list \<times> http_response option \<times> error option \<times> outcome" where
  "catch_block env fetchResponse err =
     (case raises (on_error env) of
        Some e \<Rightarrow> ([Dispatch ERROR None (Some err)], fetchResponse, Some err, Threw e)
      | None \<Rightarrow>
          (case supplied (on_error env) of
             Some w \<Rightarrow> ([Dispatch ERROR None (Some err)], Some w, None, Returned w)
           | None \<Rightarrow>
               (case raises (on_error_check env) of
                  Some e \<Rightarrow>
                    ([Dispatch ERROR None (Some err), Dispatch ERROR None (Some err)],
                     fetchResponse, Some err, Threw e)
                | None \<Rightarrow>
                    ([Dispatch ERROR None (Some err), Dispatch ERROR None (Some err)]
                       @ (if \<not> prevents (on_error_check env) then [Errored err] else []),
                     fetchResponse, Some err, Threw err))))"

text \<open>
  The \<open>finally\<close> block: phase 5, then the last hook of the delegate. A TERMINATE listener
  that raises replaces the completion of \<open>handle\<close>.
\<close>

definition finally_block :: "environment \<Rightarrow> http_response option \<Rightarrow> error option \<Rightarrow> outcome
    \<Rightarrow> action list \<times> outcome" where
  "finally_block env fetchResponse err completion =
     (case raises (on_terminate env) of
        Some e \<Rightarrow> ([Dispatch TERMINATE fetchResponse err], Threw e)
      | None \<Rightarrow> ([Dispatch TERMINATE fetchResponse err, Finished], completion))"

text \<open>
  \<open>handle\<close>: the final state, the trace up to the moment the promise settles, and how it
  settles (\<open>Returned\<close>: it resolves; \<open>Threw\<close>: it rejects; \<open>Pending\<close>: it never settles).
\<close>

definition handle :: "FetchRequest \<Rightarrow> environment \<Rightarrow> FetchRequest \<times> action list \<times> outcome" where
  "handle s env =
     (if p_isCancelled s then (s, [], Threw (HttpFetchError RequestWasCancelled (p_input s) None))
      else case dispatchRequestEvent s env of
             (s1, tr1, Some out) \<Rightarrow> (s1, Prepare # tr1, out)
           | (s1, tr1, None) \<Rightarrow>
               (case try_block s1 env of
                  (s2, tr2, fr, Stuck) \<Rightarrow> (s2, Prepare # tr1 @ tr2, Pending)
                | (s2, tr2, fr, Normal w) \<Rightarrow>
                    (case finally_block env (Some w) None (Returned w) of
                       (tr4, out) \<Rightarrow> (s2, Prepare # tr1 @ tr2 @ tr4, out))
                | (s2, tr2, fr, Raised e) \<Rightarrow>
                    (case catch_block env fr e of
                       (tr3, fr', err', completion) \<Rightarrow>
                         (case finally_block env fr' err' completion of
                            (tr4, out) \<Rightarrow> (s2, Prepare # tr1 @ tr2 @ tr3 @ tr4, out)))))"

section \<open>Reading a trace\<close>

definition dispatches :: "phase \<Rightarrow> action list \<Rightarrow> nat" where
  "dispatches ph tr = length (filter (\<lambda>a. case a of Dispatch q w e \<Rightarrow> q = ph | _ \<Rightarrow> False) tr)"

definition fetch_calls :: "action list \<Rightarrow> nat" where
  "fetch_calls tr = length (filter (\<lambda>a. case a of FetchCall i g \<Rightarrow> True | _ \<Rightarrow> False) tr)"

definition exchanges :: "action list \<Rightarrow> nat" where
  "exchanges tr = length (filter (\<lambda>a. case a of Exchange i \<Rightarrow> True | _ \<Rightarrow> False) tr)"

definition error_events :: "action list \<Rightarrow> error option list" where
  "error_events tr = concat (map (\<lambda>a. case a of Dispatch q w e \<Rightarrow> (if q = ERROR then [e] else []) | _ \<Rightarrow> []) tr)"

text \<open>Inputs for the examples: an exchange that answers in time, and a quiet effect.\<close>

definition answers :: "wire_response \<Rightarrow> exchange" where
  "answers r = \<lparr>reply = Responds r, late = False, user_cancels = False\<rparr>"

definition quiet :: effect where
  "quiet = \<lparr>raises = None, supplied = None, prevents = False, new_url = None, new_options = None\<rparr>"

definition plain :: "int \<Rightarrow> wire_response" where
  "plain c = \<lparr>status = c, redirected = False, content_length_zero = False,
              content_type = OtherContent, faults = [], label = 0\<rparr>"

definition json_broken :: "int \<Rightarrow> wire_response" where
  "json_broken c = \<lparr>status = c, redirected = False, content_length_zero = False,
      content_type = JsonContent,
      faults = [(Json, JsError ''SyntaxError'' ''Unexpected end of JSON input'')], label = 0\<rparr>"

definition options :: "string \<Rightarrow> FetchRequestOptions" where
  "options u = \<lparr>url = u, timeout = None, retryCount = None, responseType = None,
                retryOnStatusCode = None, keepalive = None, signal = False\<rparr>"

definition calm :: "(nat \<Rightarrow> exchange) \<Rightarrow> environment" where
  "calm net = \<lparr>on_request = quiet, interception = NeverSettled, on_before_send = quiet,
      network = net, on_response = quiet, on_error = quiet, on_error_check = quiet,
      on_terminate = quiet\<rparr>"

section \<open>Predicates on traces and environments\<close>

text \<open>
  The actions that the engine writes into a trace, and the actions that can occur before
  the \<open>catch\<close> and \<open>finally\<close> blocks of \<open>handle\<close> run.
\<close>

definition engine_action :: "action \<Rightarrow> bool" where
  "engine_action a = (case a of SetTimer t \<Rightarrow> True | ClearTimer \<Rightarrow> True | FetchCall i g \<Rightarrow> True
      | Exchange i \<Rightarrow> True | Sleep t \<Rightarrow> True | _ \<Rightarrow> False)"

definition early_action :: "action \<Rightarrow> bool" where
  "early_action a = (case a of Dispatch q w e \<Rightarrow> q \<noteq> ERROR \<and> q \<noteq> TERMINATE
      | Errored e \<Rightarrow> False | Finished \<Rightarrow> False | _ \<Rightarrow> True)"

text \<open>
  The REQUEST phase completes when no listener raises and \<open>handle\<close> does not stay in the
  wait for the interception: the default action was not prevented, or a listener resolved
  the promise.
\<close>

definition request_phase_completes :: "environment \<Rightarrow> bool" where
  "request_phase_completes env \<longleftrightarrow>
     raises (on_request env) = None
     \<and> (prevents (on_request env) \<longrightarrow> interception env = ResolvedByListener)"






section \<open>Counting in traces\<close>

lemma dispatches_append [simp]: "dispatches ph (a @ b) = dispatches ph a + dispatches ph b"
  by (simp add: dispatches_def)

lemma fetch_calls_append [simp]: "fetch_calls (a @ b) = fetch_calls a + fetch_calls b"
  by (simp add: fetch_calls_def)

lemma fetch_calls_Nil [simp]: "fetch_calls [] = 0"
  by (simp add: fetch_calls_def)

lemma fetch_calls_Cons [simp]:
  "fetch_calls (a # tr) = (case a of FetchCall i g \<Rightarrow> 1 | _ \<Rightarrow> 0) + fetch_calls tr"
  by (cases a) (simp_all add: fetch_calls_def)

lemma dispatches_Nil [simp]: "dispatches ph [] = 0"
  by (simp add: dispatches_def)

lemma dispatches_Cons [simp]:
  "dispatches ph (a # tr) = (case a of Dispatch q w e \<Rightarrow> (if q = ph then 1 else 0) | _ \<Rightarrow> 0) + dispatches ph tr"
  by (cases a) (simp_all add: dispatches_def)

lemma error_events_append [simp]: "error_events (a @ b) = error_events a @ error_events b"
  by (simp add: error_events_def)

lemma error_events_Nil [simp]: "error_events [] = []"
  by (simp add: error_events_def)

lemma error_events_Cons [simp]:
  "error_events (a # tr) = (case a of Dispatch q w e \<Rightarrow> (if q = ERROR then [e] else []) | _ \<Rightarrow> []) @ error_events tr"
  by (simp add: error_events_def)

section \<open>The engine: lemmas\<close>

subsection \<open>Unfolding the loop\<close>

lemma attempts_exhausted:
  "\<not> int i < l_retryCount L \<Longrightarrow>
   attempts L net i t = ([], Threw (HttpFetchError UnexpectedFallthrough (l_url L) None), t)"
  by (subst attempts.simps) simp

lemma attempts_done:
  "int i < l_retryCount L \<Longrightarrow> attempt_body L (net i) i t = (tr, Done out) \<Longrightarrow>
   attempts L net i t = (tr, out, t \<or> user_cancels (net i))"
  by (subst attempts.simps) simp

lemma attempts_continue:
  "int i < l_retryCount L \<Longrightarrow> attempt_body L (net i) i t = (tr, Continue) \<Longrightarrow>
   attempts L net i t =
     (tr @ fst (attempts L net (Suc i) (t \<or> user_cancels (net i))),
      snd (attempts L net (Suc i) (t \<or> user_cancels (net i))))"
  by (subst attempts.simps) (simp split: prod.splits)

lemma attempts_step_done:
  "int i < l_retryCount L \<Longrightarrow> snd (attempt_body L (net i) i t) = Done out \<Longrightarrow>
   attempts L net i t = (fst (attempt_body L (net i) i t), out, t \<or> user_cancels (net i))"
  by (cases "attempt_body L (net i) i t") (simp add: attempts_done)

lemma attempts_step_continue:
  "int i < l_retryCount L \<Longrightarrow> snd (attempt_body L (net i) i t) = Continue \<Longrightarrow>
   attempts L net i t =
     (fst (attempt_body L (net i) i t) @ fst (attempts L net (Suc i) (t \<or> user_cancels (net i))),
      snd (attempts L net (Suc i) (t \<or> user_cancels (net i))))"
  by (cases "attempt_body L (net i) i t") (simp add: attempts_continue)

subsection \<open>The trace of the engine holds engine actions only\<close>

lemma fetch_engine: "list_all engine_action (fst (fetch g t i ex))"
  by (simp add: fetch_def engine_action_def)

lemma catch_attempt_engine: "list_all engine_action (fst (catch_attempt L i timed e))"
  by (simp add: catch_attempt_def engine_action_def Let_def)

lemma on_wire_response_engine: "list_all engine_action (fst (on_wire_response L i r))"
  unfolding on_wire_response_def Let_def
  by (simp add: case_prod_beta catch_attempt_engine engine_action_def split: sum.splits)

lemma attempt_body_engine: "list_all engine_action (fst (attempt_body L ex i t))"
  unfolding attempt_body_def Let_def
  by (simp add: case_prod_beta catch_attempt_engine on_wire_response_engine fetch_engine
      engine_action_def split: fetch_result.splits)

lemma attempts_engine: "list_all engine_action (fst (attempts L net i t))"
proof (induction L net i t rule: attempts.induct)
  case (1 L net attempt tripped)
  show ?case
  proof (cases "int attempt < l_retryCount L")
    case False
    then show ?thesis by (simp add: attempts_exhausted)
  next
    case True
    obtain tr st where b: "attempt_body L (net attempt) attempt tripped = (tr, st)"
      by (cases "attempt_body L (net attempt) attempt tripped")
    have e: "list_all engine_action tr"
      using attempt_body_engine [of L "net attempt" attempt tripped] b by simp
    show ?thesis
    proof (cases st)
      case (Done out)
      with True b e show ?thesis by (simp add: attempts_done)
    next
      case Continue
      with "1.IH" [OF True b [symmetric]] True b e show ?thesis
        by (simp add: attempts_continue)
    qed
  qed
qed

lemma safeFetch_engine: "list_all engine_action (fst (safeFetch opts net t))"
  by (simp add: safeFetch_def attempts_engine)

lemma engine_trace_counts:
  assumes "list_all engine_action tr"
  shows "dispatches ph tr = 0" and "error_events tr = []" and "Errored e \<notin> set tr"
  using assms
  by (induction tr) (auto simp: error_events_def engine_action_def split: action.splits)

lemma engine_early: "list_all engine_action tr \<Longrightarrow> list_all early_action tr"
  by (induction tr) (auto simp: engine_action_def early_action_def split: action.splits)

lemma early_counts:
  assumes "list_all early_action tr"
  shows "dispatches TERMINATE tr = 0" and "dispatches ERROR tr = 0" and "error_events tr = []"
    and "Errored e \<notin> set tr"
  using assms
  by (induction tr) (auto simp: error_events_def early_action_def split: action.splits)

subsection \<open>One call of the primitive in each attempt\<close>

lemma fetch_calls_fetch: "fetch_calls (fst (fetch g t i ex)) = 1"
  by (simp add: fetch_def)

lemma fetch_calls_catch: "fetch_calls (fst (catch_attempt L i timed e)) = 0"
  by (simp add: catch_attempt_def Let_def)

lemma fetch_calls_on_wire_response: "fetch_calls (fst (on_wire_response L i r)) = 0"
  unfolding on_wire_response_def Let_def
  by (simp add: case_prod_beta fetch_calls_catch split: sum.splits)

lemma attempt_body_fetch_calls: "fetch_calls (fst (attempt_body L ex i t)) = 1"
  unfolding attempt_body_def Let_def
  by (simp add: case_prod_beta fetch_calls_catch fetch_calls_on_wire_response fetch_calls_fetch
      split: fetch_result.splits)

subsection \<open>An exchange that answers\<close>

lemma fetch_answers:
  "\<not> t \<Longrightarrow> fetch g t i (answers r) = ([FetchCall i g, Exchange i], Resolved r)"
  by (simp add: fetch_def answers_def)

lemma answers_no_cancel [simp]: "user_cancels (answers r) = False"
  by (simp add: answers_def)

lemma attempt_body_answers:
  "snd (attempt_body L (answers r) i False) = snd (on_wire_response L i r)"
  by (simp add: attempt_body_def Let_def fetch_answers split: prod.splits)

lemma step_error_status:
  assumes "mapStatusToResponseType (status r) = Error" and "parseHttpErrorResponse r = Inr w"
  shows "snd (on_wire_response L i r) =
    (if isClientError (status r) \<or> (isServerError (status r) \<and> \<not> l_retryOnStatusCode L)
        \<or> int i = l_retryCount L - 1
     then Done (Returned w) else Continue)"
  using assms by (simp add: on_wire_response_def Let_def)

lemma step_retry:
  assumes "mapStatusToResponseType (status r) = Error" and "\<not> isClientError (status r)"
    and "isServerError (status r) \<longrightarrow> l_retryOnStatusCode L" and "int i \<noteq> l_retryCount L - 1"
  shows "snd (on_wire_response L i r) = Continue"
proof (cases "isServerError (status r)")
  case True
  with assms show ?thesis by (simp add: on_wire_response_def Let_def)
next
  case False
  with assms show ?thesis by (simp add: on_wire_response_def Let_def)
qed

lemma parse_wraps: "parseHttpErrorResponse r = Inr w \<Longrightarrow> response w = r"
  by (auto simp: parseHttpErrorResponse_def responseTypeHandle_def HttpResponse_def
      split: if_splits content_kind.splits option.splits)

lemma destructure_budget: "1 \<le> l_retryCount (destructure opts)"
  by (simp add: destructure_def Let_def or_default_def split: option.splits)

lemma three_attempts:
  assumes rc: "l_retryCount L = 3" and retry: "l_retryOnStatusCode L"
    and net: "\<forall>i. net i = answers (resp i) \<and> status (resp i) = 500"
    and parse: "parseHttpErrorResponse (resp 2) = Inr w"
  shows "fst (snd (attempts L net 0 False)) = Returned w"
    and "fetch_calls (fst (attempts L net 0 False)) = 3"
proof -
  have st: "\<And>i. mapStatusToResponseType (status (resp i)) = Error"
    "\<And>i. \<not> isClientError (status (resp i))"
    using net by (simp_all add: mapStatusToResponseType_def isClientError_def)
  have c0: "snd (attempt_body L (net 0) 0 False) = Continue"
    using net retry rc step_retry [of "resp 0" L 0] st by (simp add: attempt_body_answers)
  have c1: "snd (attempt_body L (net (Suc 0)) (Suc 0) False) = Continue"
    using net retry rc step_retry [of "resp (Suc 0)" L "Suc 0"] st by (simp add: attempt_body_answers)
  have c2: "snd (attempt_body L (net (Suc (Suc 0))) (Suc (Suc 0)) False) = Done (Returned w)"
    using net rc parse step_error_status [of "resp 2" w L "Suc (Suc 0)"] st
    by (simp add: attempt_body_answers numeral_2_eq_2)
  have a2: "attempts L net (Suc (Suc 0)) False =
      (fst (attempt_body L (net (Suc (Suc 0))) (Suc (Suc 0)) False), Returned w, False)"
    using attempts_step_done [where net = net and i = "Suc (Suc 0)", OF _ c2] rc net by simp
  have a1: "attempts L net (Suc 0) False =
      (fst (attempt_body L (net (Suc 0)) (Suc 0) False) @
       fst (attempt_body L (net (Suc (Suc 0))) (Suc (Suc 0)) False), Returned w, False)"
    using attempts_step_continue [where net = net and i = "Suc 0", OF _ c1] rc net a2 by simp
  have a0: "attempts L net 0 False =
      (fst (attempt_body L (net 0) 0 False) @ fst (attempt_body L (net (Suc 0)) (Suc 0) False) @
       fst (attempt_body L (net (Suc (Suc 0))) (Suc (Suc 0)) False), Returned w, False)"
    using attempts_step_continue [where net = net and i = 0, OF _ c0] rc net a1 by simp
  show "fst (snd (attempts L net 0 False)) = Returned w"
    using a0 by simp
  show "fetch_calls (fst (attempts L net 0 False)) = 3"
    using a0 by (simp add: attempt_body_fetch_calls)
qed

subsection \<open>A tripped token and no timer\<close>

lemma attempt_body_tripped_last:
  assumes "\<not> timer_set L" and "l_signal L" and "int i = l_retryCount L - 1"
  shows "attempt_body L ex i True =
    ([FetchCall i SharedToken],
     Done (Threw (HttpFetchError RequestTimedOut (l_url L) (Some AbortError))))"
  using assms
  by (simp add: attempt_body_def passed_signal_def fetch_def catch_attempt_def AbortError_def Let_def)

lemma attempt_body_tripped_next:
  assumes "\<not> timer_set L" and "l_signal L" and "int i \<noteq> l_retryCount L - 1"
  shows "attempt_body L ex i True = ([FetchCall i SharedToken], Continue)"
  using assms
  by (simp add: attempt_body_def passed_signal_def fetch_def catch_attempt_def AbortError_def Let_def)

lemma exchanges_fetch_calls_only: "exchanges (map (\<lambda>k. FetchCall k g) ks) = 0"
  by (induction ks) (simp_all add: exchanges_def)

lemma attempts_tripped:
  "\<not> timer_set L \<Longrightarrow> l_signal L \<Longrightarrow> t \<Longrightarrow> int i < l_retryCount L \<Longrightarrow>
    attempts L net i t =
      (map (\<lambda>k. FetchCall k SharedToken) [i..<nat (l_retryCount L)],
       Threw (HttpFetchError RequestTimedOut (l_url L) (Some AbortError)), True)"
proof (induction L net i t rule: attempts.induct)
  case (1 L net attempt tripped)
  from "1.prems" have nt: "\<not> timer_set L" and sg: "l_signal L"
    and t: "tripped = True" and lt: "int attempt < l_retryCount L" by simp_all
  show ?case
  proof (cases "int attempt = l_retryCount L - 1")
    case True
    then have "nat (l_retryCount L) = Suc attempt" by simp
    then have u: "[attempt..<nat (l_retryCount L)] = [attempt]" by simp
    have "attempts L net attempt True =
      ([FetchCall attempt SharedToken],
       Threw (HttpFetchError RequestTimedOut (l_url L) (Some AbortError)), True)"
      using attempts_done [where net = net and i = attempt, OF lt attempt_body_tripped_last [OF nt sg True]]
      by simp
    with u t show ?thesis by simp
  next
    case False
    with lt have lt': "int (Suc attempt) < l_retryCount L" by simp
    then have u: "[attempt..<nat (l_retryCount L)] = attempt # [Suc attempt..<nat (l_retryCount L)]"
      by (simp add: upt_conv_Cons)
    have c: "attempt_body L (net attempt) attempt tripped = ([FetchCall attempt SharedToken], Continue)"
      using attempt_body_tripped_next [OF nt sg False] t by simp
    have ih: "attempts L net (Suc attempt) (tripped \<or> user_cancels (net attempt)) =
      (map (\<lambda>k. FetchCall k SharedToken) [Suc attempt..<nat (l_retryCount L)],
       Threw (HttpFetchError RequestTimedOut (l_url L) (Some AbortError)), True)"
      using "1.IH" [OF lt c [symmetric]] nt sg t lt' by simp
    show ?thesis
      using attempts_continue [where net = net and i = attempt, OF lt c] ih u t by simp
  qed
qed

subsection \<open>The engine settles when the network replies\<close>

lemma fetch_replies: "reply ex \<noteq> Silent \<Longrightarrow> snd (fetch g t i ex) \<noteq> Hangs"
  by (cases "reply ex") (simp_all add: fetch_def)

lemma catch_attempt_settles: "snd (catch_attempt L i timed e) \<noteq> Done Pending"
  by (simp add: catch_attempt_def Let_def)

lemma on_wire_response_settles: "snd (on_wire_response L i r) \<noteq> Done Pending"
  unfolding on_wire_response_def Let_def
  by (simp add: case_prod_beta catch_attempt_settles split: sum.splits)

lemma attempt_body_settles:
  "reply ex \<noteq> Silent \<Longrightarrow> snd (attempt_body L ex i t) \<noteq> Done Pending"
  using fetch_replies [of ex "passed_signal L" t i]
  unfolding attempt_body_def Let_def
  by (simp add: case_prod_beta catch_attempt_settles on_wire_response_settles
      split: fetch_result.splits)

lemma attempts_settle:
  "\<forall>k. reply (net k) \<noteq> Silent \<Longrightarrow> fst (snd (attempts L net i t)) \<noteq> Pending"
proof (induction L net i t rule: attempts.induct)
  case (1 L net attempt tripped)
  show ?case
  proof (cases "int attempt < l_retryCount L")
    case False
    then show ?thesis by (simp add: attempts_exhausted)
  next
    case True
    obtain tr st where b: "attempt_body L (net attempt) attempt tripped = (tr, st)"
      by (cases "attempt_body L (net attempt) attempt tripped")
    have n: "st \<noteq> Done Pending"
      using attempt_body_settles [of "net attempt" L attempt tripped] b "1.prems" by simp
    show ?thesis
    proof (cases st)
      case (Done out)
      with True b n show ?thesis by (simp add: attempts_done)
    next
      case Continue
      with "1.IH" [OF True b [symmetric]] "1.prems" True b show ?thesis
        by (simp add: attempts_continue)
    qed
  qed
qed

subsection \<open>No timer without a positive timeout\<close>

lemma no_timer_without_timeout:
  "timeout opts = Some 0 \<or> keepalive opts = Some True \<Longrightarrow> \<not> timer_set (destructure opts)"
  by (auto simp: timer_set_def destructure_def or_default_def Let_def)

lemma no_timer_no_SetTimer:
  "\<not> timer_set L \<Longrightarrow> SetTimer n \<notin> set (fst (attempt_body L ex i t))"
  unfolding attempt_body_def on_wire_response_def catch_attempt_def fetch_def Let_def
  by (simp add: case_prod_beta split: fetch_result.splits sum.splits reply.splits)

section \<open>The lifecycle: lemmas\<close>

lemma invoke_network_engine: "list_all engine_action (fst (snd (invoke_network s env)))"
  by (simp add: invoke_network_def Let_def case_prod_beta safeFetch_engine)

lemma handle_cancelled:
  "p_isCancelled s \<Longrightarrow>
   handle s env = (s, [], Threw (HttpFetchError RequestWasCancelled (p_input s) None))"
  by (simp add: handle_def)

lemma request_phase_trace:
  "fst (snd (dispatchRequestEvent s env)) = [Dispatch REQUEST None None]"
  by (simp add: dispatchRequestEvent_def Let_def split: option.splits interception.splits prod.splits)

lemma request_phase_passes:
  "request_phase_completes env \<Longrightarrow> snd (snd (dispatchRequestEvent s env)) = None"
  by (simp add: request_phase_completes_def dispatchRequestEvent_def Let_def)

lemma response_event_early: "list_all early_action (fst (dispatchResponseEvent env w))"
  by (simp add: dispatchResponseEvent_def Let_def early_action_def split: option.splits)

lemma response_phase_trace:
  "fst (snd (response_phase s env tr w)) = tr @ fst (dispatchResponseEvent env w)"
  by (simp add: response_phase_def split: prod.splits sum.splits)

lemma try_block_early: "list_all early_action (fst (snd (try_block s env)))"
proof -
  have a: "early_action Started" "early_action (Dispatch BEFORE_SEND None None)"
    by (simp_all add: early_action_def)
  obtain s3 tr out where n: "invoke_network
      (s\<lparr>p_fetchRequestOptions := or_default (p_fetchRequestOptions s) (new_options (on_before_send env))\<rparr>) env
      = (s3, tr, out)"
    using prod_cases3 by blast
  have e: "list_all early_action tr"
    using invoke_network_engine [of "s\<lparr>p_fetchRequestOptions := or_default (p_fetchRequestOptions s) (new_options (on_before_send env))\<rparr>" env] n
    by (simp add: engine_early)
  show ?thesis
    unfolding try_block_def Let_def n using a e
    by (cases out) (simp_all add: response_phase_trace response_event_early split: option.splits)
qed

lemma try_block_supplied:
  "supplied (on_request env) = Some w \<Longrightarrow>
   try_block s env = response_phase s env [Started] w"
  by (simp add: try_block_def)

lemma response_event_counts:
  "fetch_calls (fst (dispatchResponseEvent env w)) = 0"
  "dispatches BEFORE_SEND (fst (dispatchResponseEvent env w)) = 0"
  "dispatches RESPONSE (fst (dispatchResponseEvent env w)) = 1"
  by (simp_all add: dispatchResponseEvent_def Let_def split: option.splits)

lemma catch_block_trace:
  "dispatches TERMINATE (fst (catch_block env fr err)) = 0"
  by (simp add: catch_block_def split: option.splits)

lemma catch_block_counts:
  "fetch_calls (fst (catch_block env fr err)) = 0"
  "dispatches BEFORE_SEND (fst (catch_block env fr err)) = 0"
  by (simp_all add: catch_block_def split: option.splits)

lemma finally_block_trace:
  "dispatches TERMINATE (fst (finally_block env fr err c)) = 1"
  "dispatches ERROR (fst (finally_block env fr err c)) = 0"
  "error_events (fst (finally_block env fr err c)) = []"
  "Errored e \<notin> set (fst (finally_block env fr err c))"
  by (simp_all add: finally_block_def error_events_def split: option.splits)

lemma finally_block_counts:
  "fetch_calls (fst (finally_block env fr err c)) = 0"
  "dispatches BEFORE_SEND (fst (finally_block env fr err c)) = 0"
  "dispatches RESPONSE (fst (finally_block env fr err c)) = 0"
  by (simp_all add: finally_block_def split: option.splits)

lemma invoke_network_settles:
  "\<forall>k. reply (network env k) \<noteq> Silent \<Longrightarrow> snd (snd (invoke_network s env)) \<noteq> Pending"
  by (simp add: invoke_network_def Let_def case_prod_beta safeFetch_def attempts_settle)

lemma response_phase_settles: "snd (snd (snd (response_phase s env tr w))) \<noteq> Stuck"
  by (simp add: response_phase_def split: prod.splits sum.splits)

lemma try_block_settles:
  assumes "\<forall>k. reply (network env k) \<noteq> Silent"
  shows "snd (snd (snd (try_block s env))) \<noteq> Stuck"
proof -
  obtain s3 tr out where n: "invoke_network
      (s\<lparr>p_fetchRequestOptions := or_default (p_fetchRequestOptions s) (new_options (on_before_send env))\<rparr>) env
      = (s3, tr, out)"
    using prod_cases3 by blast
  have e: "out \<noteq> Pending"
    using invoke_network_settles [OF assms, of "s\<lparr>p_fetchRequestOptions := or_default (p_fetchRequestOptions s) (new_options (on_before_send env))\<rparr>"] n
    by simp
  show ?thesis
    unfolding try_block_def Let_def n using e
    by (cases out) (simp_all add: response_phase_settles split: option.splits)
qed

lemma catch_block_settles: "snd (snd (snd (catch_block env fr err))) \<noteq> Pending"
  by (simp add: catch_block_def split: option.splits)

lemma finally_block_settles:
  "c \<noteq> Pending \<Longrightarrow> snd (finally_block env fr err c) \<noteq> Pending"
  by (simp add: finally_block_def split: option.splits)

text \<open>
  How \<open>handle\<close> unfolds along each way out of the REQUEST phase and the \<open>try\<close> block.
\<close>

lemma handle_request_ended:
  "\<not> p_isCancelled s \<Longrightarrow> dispatchRequestEvent s env = (s1, tr1, Some out) \<Longrightarrow>
   handle s env = (s1, Prepare # tr1, out)"
  by (simp add: handle_def)

lemma handle_stuck:
  "\<not> p_isCancelled s \<Longrightarrow> dispatchRequestEvent s env = (s1, tr1, None) \<Longrightarrow>
   try_block s1 env = (s2, tr2, fr, Stuck) \<Longrightarrow>
   handle s env = (s2, Prepare # tr1 @ tr2, Pending)"
  by (simp add: handle_def)

lemma handle_normal:
  "\<not> p_isCancelled s \<Longrightarrow> dispatchRequestEvent s env = (s1, tr1, None) \<Longrightarrow>
   try_block s1 env = (s2, tr2, fr, Normal w) \<Longrightarrow>
   handle s env =
     (s2, Prepare # tr1 @ tr2 @ fst (finally_block env (Some w) None (Returned w)),
      snd (finally_block env (Some w) None (Returned w)))"
  by (simp add: handle_def case_prod_beta)

lemma handle_raised:
  "\<not> p_isCancelled s \<Longrightarrow> dispatchRequestEvent s env = (s1, tr1, None) \<Longrightarrow>
   try_block s1 env = (s2, tr2, fr, Raised e) \<Longrightarrow>
   catch_block env fr e = (tr3, fr', err', completion) \<Longrightarrow>
   handle s env =
     (s2, Prepare # tr1 @ tr2 @ tr3 @ fst (finally_block env fr' err' completion),
      snd (finally_block env fr' err' completion))"
  by (simp add: handle_def case_prod_beta)

text \<open>
  \<open>cancel\<close> acts once: a second call changes nothing and passes no reason on.
\<close>

lemma cancel_idempotent:
  "fst (cancel (fst (cancel s))) = fst (cancel s) \<and> snd (cancel (fst (cancel s))) = None"
  by (simp add: cancel_def)

lemma cancel_sets_flag:
  "p_abortController s \<noteq> None \<Longrightarrow> isCancelled (fst (cancel s))"
  by (simp add: cancel_def isCancelled_def)

text \<open>
  The equations that evaluate the engine and the lifecycle on a concrete input.
\<close>

lemmas engine_eval = safeFetch_def destructure_def or_default_def options_def answers_def plain_def
  json_broken_def attempts.simps attempt_body_def on_wire_response_def catch_attempt_def fetch_def
  timer_set_def passed_signal_def parseHttpErrorResponse_def responseTypeHandle_def
  mapStatusToResponseType_def isClientError_def isServerError_def HttpResponse_def AbortError_def
  Let_def

lemmas handle_eval = handle_def dispatchRequestEvent_def try_block_def invoke_network_def
  response_phase_def dispatchResponseEvent_def catch_block_def finally_block_def cancel_def
  construct_def calm_def quiet_def succeeded_def serverInfo_def statusCode_def isCancelled_def
  request_phase_completes_def

section \<open>The ERROR phase: lemmas\<close>













section \<open>C1: the TERMINATE event\<close>

text \<open>
  C1, as amended. A \<open>handle()\<close> call on a request that is already cancelled rejects at once
  with the error "Request was cancelled" and dispatches nothing, TERMINATE included. For
  every \<open>handle()\<close> call on a request that is not cancelled and whose REQUEST phase
  completes, TERMINATE has been dispatched exactly once when the call settles (success,
  short-circuit, recovered or unrecovered error, cancellation in flight, a listener of a
  later phase raising), and not at all while the call is pending. Such a call does settle
  when the network gives a reply, a response or a failure, to every attempt.
\<close>

theorem terminate_once:
  "(p_isCancelled s \<longrightarrow>
      handle s env = (s, [], Threw (HttpFetchError RequestWasCancelled (p_input s) None)))
   \<and> (\<not> p_isCancelled s \<and> request_phase_completes env \<longrightarrow>
      dispatches TERMINATE (fst (snd (handle s env)))
        = (if snd (snd (handle s env)) = Pending then 0 else 1))
   \<and> (\<not> p_isCancelled s \<and> request_phase_completes env \<and> (\<forall>k. reply (network env k) \<noteq> Silent)
      \<longrightarrow> snd (snd (handle s env)) \<noteq> Pending)"
proof (intro conjI impI)
  assume "p_isCancelled s"
  then show "handle s env = (s, [], Threw (HttpFetchError RequestWasCancelled (p_input s) None))"
    by (rule handle_cancelled)
next
  assume h: "\<not> p_isCancelled s \<and> request_phase_completes env"
  then have nc: "\<not> p_isCancelled s" by simp
  obtain s1 tr1 where r: "dispatchRequestEvent s env = (s1, tr1, None)"
    using request_phase_passes [of env s] h by (cases "dispatchRequestEvent s env") auto
  have t1: "tr1 = [Dispatch REQUEST None None]"
    using request_phase_trace [of s env] r by simp
  obtain s2 tr2 fr res where t: "try_block s1 env = (s2, tr2, fr, res)"
    by (cases "try_block s1 env") auto
  have t2: "dispatches TERMINATE tr2 = 0"
    using early_counts(1) [OF try_block_early [of s1 env]] t by simp
  show "dispatches TERMINATE (fst (snd (handle s env)))
        = (if snd (snd (handle s env)) = Pending then 0 else 1)"
  proof (cases res)
    case Stuck
    with handle_stuck [OF nc r] t t1 t2 show ?thesis by simp
  next
    case (Normal w)
    have "snd (finally_block env (Some w) None (Returned w)) \<noteq> Pending"
      by (simp add: finally_block_settles)
    with Normal handle_normal [OF nc r] t t1 t2 show ?thesis
      by (simp add: finally_block_trace)
  next
    case (Raised e)
    obtain tr3 fr' err' completion where c: "catch_block env fr e = (tr3, fr', err', completion)"
      by (cases "catch_block env fr e") auto
    have t3: "dispatches TERMINATE tr3 = 0"
      using catch_block_trace [of env fr e] c by simp
    have "completion \<noteq> Pending"
      using catch_block_settles [of env fr e] c by simp
    then have "snd (finally_block env fr' err' completion) \<noteq> Pending"
      by (rule finally_block_settles)
    with Raised handle_raised [OF nc r _ c] t t1 t2 t3 show ?thesis
      by (simp add: finally_block_trace)
  qed
next
  assume h: "\<not> p_isCancelled s \<and> request_phase_completes env \<and> (\<forall>k. reply (network env k) \<noteq> Silent)"
  then have nc: "\<not> p_isCancelled s" and net: "\<forall>k. reply (network env k) \<noteq> Silent" by simp_all
  obtain s1 tr1 where r: "dispatchRequestEvent s env = (s1, tr1, None)"
    using request_phase_passes [of env s] h by (cases "dispatchRequestEvent s env") auto
  obtain s2 tr2 fr res where t: "try_block s1 env = (s2, tr2, fr, res)"
    by (cases "try_block s1 env") auto
  have ns: "res \<noteq> Stuck"
    using try_block_settles [OF net, of s1] t by simp
  show "snd (snd (handle s env)) \<noteq> Pending"
  proof (cases res)
    case Stuck
    with ns show ?thesis by simp
  next
    case (Normal w)
    with handle_normal [OF nc r] t show ?thesis
      by (simp add: finally_block_settles)
  next
    case (Raised e)
    obtain tr3 fr' err' completion where c: "catch_block env fr e = (tr3, fr', err', completion)"
      by (cases "catch_block env fr e") auto
    have "completion \<noteq> Pending"
      using catch_block_settles [of env fr e] c by simp
    then have "snd (finally_block env fr' err' completion) \<noteq> Pending"
      by (rule finally_block_settles)
    with Raised handle_raised [OF nc r _ c] t show ?thesis by simp
  qed
qed

text \<open>
  Both parts at concrete inputs: a request cancelled beforehand, and a plain GET that gets a 200.
\<close>

theorem terminate_once_witness:
  "p_isCancelled (fst (cancel (construct (options ''u''))))
   \<and> handle (fst (cancel (construct (options ''u'')))) (calm (\<lambda>i. answers (plain 200)))
       = (fst (cancel (construct (options ''u''))), [],
          Threw (HttpFetchError RequestWasCancelled ''u'' None))
   \<and> \<not> p_isCancelled (construct (options ''u''))
   \<and> request_phase_completes (calm (\<lambda>i. answers (plain 200)))
   \<and> (\<forall>k. reply (network (calm (\<lambda>i. answers (plain 200))) k) \<noteq> Silent)
   \<and> snd (snd (handle (construct (options ''u'')) (calm (\<lambda>i. answers (plain 200))))) \<noteq> Pending
   \<and> dispatches TERMINATE
        (fst (snd (handle (construct (options ''u'')) (calm (\<lambda>i. answers (plain 200)))))) = 1"
  using terminate_once [of "fst (cancel (construct (options ''u'')))" "calm (\<lambda>i. answers (plain 200))"]
    terminate_once [of "construct (options ''u'')" "calm (\<lambda>i. answers (plain 200))"]
  by (simp add: handle_eval engine_eval)

text \<open>
  C1 as stated fails for a \<open>cancel()\<close> issued before \<open>handle()\<close>: the guard at the top of
  \<open>handle\<close> throws before the \<open>try\<close>, and TERMINATE is dispatched zero times.
\<close>

theorem terminate_cancelled_counterexample:
  "dispatches TERMINATE
     (fst (snd (handle (fst (cancel (construct (options ''u'')))) (calm (\<lambda>i. answers (plain 200)))))) = 0
   \<and> snd (snd (handle (fst (cancel (construct (options ''u'')))) (calm (\<lambda>i. answers (plain 200)))))
       = Threw (HttpFetchError RequestWasCancelled ''u'' None)"
  by (simp add: handle_eval options_def)

section \<open>C2: a tripped token and the engine\<close>

text \<open>
  C2, as amended. The check of the cancellation flag is made by \<open>handle\<close>, once, before the
  pipeline starts: on a cancelled request it rejects with the cancellation error, and the
  engine is not entered. The engine has no check of its own. When an attempt sets no timer
  (timeout zero or keep-alive) the signal of the token is the one handed to \<open>fetch\<close>: an
  attempt that starts with the token tripped calls \<open>fetch\<close>, which rejects without a network
  exchange; the engine takes that for a timeout, goes on through the remaining attempts and
  on the last one throws the structured error with the timeout message.
\<close>

theorem tripped_token:
  "(p_isCancelled s \<longrightarrow>
      handle s env = (s, [], Threw (HttpFetchError RequestWasCancelled (p_input s) None)))
   \<and> (\<not> timer_set L \<and> l_signal L \<and> int i < l_retryCount L \<longrightarrow>
      attempts L net i True =
        (map (\<lambda>k. FetchCall k SharedToken) [i..<nat (l_retryCount L)],
         Threw (HttpFetchError RequestTimedOut (l_url L) (Some AbortError)), True)
      \<and> exchanges (fst (attempts L net i True)) = 0)"
  by (simp add: handle_cancelled attempts_tripped exchanges_fetch_calls_only)

theorem tripped_token_witness:
  "p_isCancelled (fst (cancel (construct (options ''u''))))
   \<and> handle (fst (cancel (construct (options ''u'')))) (calm (\<lambda>i. answers (plain 200)))
       = (fst (cancel (construct (options ''u''))), [],
          Threw (HttpFetchError RequestWasCancelled ''u'' None))
   \<and> \<not> timer_set (destructure ((options ''u'')\<lparr>timeout := Some 0, signal := True\<rparr>))
   \<and> l_signal (destructure ((options ''u'')\<lparr>timeout := Some 0, signal := True\<rparr>))
   \<and> int 1 < l_retryCount (destructure ((options ''u'')\<lparr>timeout := Some 0, signal := True\<rparr>))
   \<and> attempts (destructure ((options ''u'')\<lparr>timeout := Some 0, signal := True\<rparr>))
        (\<lambda>i. answers (plain 200)) 1 True
       = ([FetchCall 1 SharedToken, FetchCall 2 SharedToken],
          Threw (HttpFetchError RequestTimedOut ''u'' (Some AbortError)), True)
   \<and> exchanges (fst (attempts (destructure ((options ''u'')\<lparr>timeout := Some 0, signal := True\<rparr>))
        (\<lambda>i. answers (plain 200)) 1 True)) = 0"
  using tripped_token [of "fst (cancel (construct (options ''u'')))" "calm (\<lambda>i. answers (plain 200))"
      "destructure ((options ''u'')\<lparr>timeout := Some 0, signal := True\<rparr>)" 1 "\<lambda>i. answers (plain 200)"]
  by (auto simp: handle_eval destructure_def options_def or_default_def timer_set_def Let_def
      upt_conv_Cons exchanges_def)

text \<open>
  C2 as stated fails: with the token tripped before the first attempt, timeout zero and a
  budget of three, the engine starts all three attempts and throws the timeout error, which
  is not cancellation-flavoured.
\<close>

theorem tripped_token_counterexample:
  "safeFetch ((options ''u'')\<lparr>timeout := Some 0, signal := True\<rparr>) (\<lambda>i. answers (plain 200)) True
     = ([FetchCall 0 SharedToken, FetchCall 1 SharedToken, FetchCall 2 SharedToken],
        Threw (HttpFetchError RequestTimedOut ''u'' (Some AbortError)), True)
   \<and> \<not> cancellation_flavoured (HttpFetchError RequestTimedOut ''u'' (Some AbortError))"
  by (simp add: engine_eval cancellation_flavoured_def)

section \<open>C3: cancel() during handle()\<close>

text \<open>
  C3. The code at a request with default options, on which the user calls \<open>cancel()\<close> while
  the first network call is in flight and the server then answers 200: \<open>handle()\<close> resolves
  with that response instead of rejecting with a cancellation error; \<open>isCancelled()\<close> is
  true afterwards. (The default timeout is positive, so the attempt hands \<open>fetch\<close> the signal
  of its timer and not the signal of the request's controller.)
\<close>

theorem cancel_in_flight_resolves:
  "snd (snd (handle (construct (options ''u''))
       (calm (\<lambda>i. (answers (plain 200))\<lparr>user_cancels := True\<rparr>))))
     = Returned (HttpResponse (plain 200) (Body Json))
   \<and> isCancelled (fst (handle (construct (options ''u''))
       (calm (\<lambda>i. (answers (plain 200))\<lparr>user_cancels := True\<rparr>))))"
  by (simp add: handle_eval engine_eval)

section \<open>C4: the deadline timer and the token\<close>

text \<open>
  C4. The code at options that carry the token's signal, with a \<open>cancel()\<close> of the user
  while the first call is in flight. With the default timeout the attempt sets its timer and
  calls \<open>fetch\<close> with the signal of the timer's controller only: the call is not aborted and
  the engine returns the response. With timeout zero no timer is set, \<open>fetch\<close> gets the
  token's signal, and the same \<open>cancel()\<close> aborts the call.
\<close>

theorem timer_signal_replaces_token:
  "safeFetch ((options ''u'')\<lparr>signal := True\<rparr>)
       (\<lambda>i. (answers (plain 200))\<lparr>user_cancels := True\<rparr>) False
     = ([SetTimer 45000, FetchCall 0 AttemptTimer, Exchange 0, ClearTimer],
        Returned (HttpResponse (plain 200) (Body Json)), True)
   \<and> safeFetch ((options ''u'')\<lparr>timeout := Some 0, signal := True\<rparr>)
       (\<lambda>i. (answers (plain 200))\<lparr>user_cancels := True\<rparr>) False
     = ([FetchCall 0 SharedToken, Exchange 0, FetchCall 1 SharedToken, FetchCall 2 SharedToken],
        Threw (HttpFetchError RequestTimedOut ''u'' (Some AbortError)), True)"
  by (simp add: engine_eval)

section \<open>C5: retry on a server-error status\<close>

text \<open>
  C5, as amended. Take a request whose attempt budget in the engine is 3 and whose
  \<open>retryOnStatusCode\<close> is true, a token that is not tripped, and a network that answers
  every call in time with status 500. If the error parser reads the third response, the
  engine calls the network primitive exactly 3 times and returns (does not throw) the
  wrapper of that response: its status is 500, \<open>serverError\<close> holds, and \<open>failed\<close> holds
  unless the wire response is flagged as redirected. For every server-error status whose
  body the parser reads, an attempt is followed by a retry exactly when the caller opted in
  and the attempt is not the last; and on the last attempt every error status whose body the
  parser reads is returned at once.
\<close>

theorem server_error_retry:
  "(l_retryCount (destructure opts) = 3 \<and> retryOnStatusCode opts = Some True
      \<and> (\<forall>i. net i = answers (resp i) \<and> status (resp i) = 500)
      \<and> parseHttpErrorResponse (resp 2) = Inr w
    \<longrightarrow> fst (snd (safeFetch opts net False)) = Returned w
        \<and> fetch_calls (fst (safeFetch opts net False)) = 3
        \<and> status_getter w = 500 \<and> serverError w \<and> (failed w \<longleftrightarrow> \<not> redirected (resp 2)))
   \<and> (isServerError (status r) \<and> parseHttpErrorResponse r = Inr w'
    \<longrightarrow> snd (attempt_body L (answers r) i False) =
          (if l_retryOnStatusCode L \<and> int i \<noteq> l_retryCount L - 1 then Continue
           else Done (Returned w')))
   \<and> (mapStatusToResponseType (status r) = Error \<and> int i = l_retryCount L - 1
        \<and> parseHttpErrorResponse r = Inr w'
    \<longrightarrow> snd (attempt_body L (answers r) i False) = Done (Returned w'))"
proof (intro conjI impI)
  assume h: "l_retryCount (destructure opts) = 3 \<and> retryOnStatusCode opts = Some True
      \<and> (\<forall>i. net i = answers (resp i) \<and> status (resp i) = 500)
      \<and> parseHttpErrorResponse (resp 2) = Inr w"
  then have retry: "l_retryOnStatusCode (destructure opts)"
    by (simp add: destructure_def Let_def or_default_def)
  from h have w: "response w = resp 2" and s: "status (resp 2) = 500"
    by (simp_all add: parse_wraps)
  show "fst (snd (safeFetch opts net False)) = Returned w"
    unfolding safeFetch_def using three_attempts(1) [of "destructure opts" net resp w] h retry by simp
  show "fetch_calls (fst (safeFetch opts net False)) = 3"
    unfolding safeFetch_def using three_attempts(2) [of "destructure opts" net resp w] h retry by simp
  show "status_getter w = 500"
    using w s by (simp add: status_getter_def statusCode_def)
  show "serverError w"
    using w s by (simp add: serverError_def statusCode_def isServerError_def)
  show "failed w \<longleftrightarrow> \<not> redirected (resp 2)"
    using w s by (simp add: failed_def succeeded_def serverInfo_def redirected_getter_def statusCode_def)
next
  assume h: "isServerError (status r) \<and> parseHttpErrorResponse r = Inr w'"
  then have "mapStatusToResponseType (status r) = Error" "\<not> isClientError (status r)"
    by (simp_all add: isServerError_def isClientError_def mapStatusToResponseType_def)
  with h show "snd (attempt_body L (answers r) i False) =
          (if l_retryOnStatusCode L \<and> int i \<noteq> l_retryCount L - 1 then Continue
           else Done (Returned w'))"
    using step_error_status [of r w' L i] by (auto simp: attempt_body_answers)
next
  assume "mapStatusToResponseType (status r) = Error \<and> int i = l_retryCount L - 1
        \<and> parseHttpErrorResponse r = Inr w'"
  then show "snd (attempt_body L (answers r) i False) = Done (Returned w')"
    using step_error_status [of r w' L i] by (simp add: attempt_body_answers)
qed

theorem server_error_retry_witness:
  "l_retryCount (destructure ((options ''u'')\<lparr>retryCount := Some 3, retryOnStatusCode := Some True\<rparr>)) = 3
   \<and> (\<forall>i. (\<lambda>i. answers (plain 500)) i = answers ((\<lambda>i. plain 500) i) \<and> status ((\<lambda>i. plain 500) i) = 500)
   \<and> parseHttpErrorResponse (plain 500) = Inr (HttpResponse (plain 500) StatusText)
   \<and> isServerError (status (plain 500))
   \<and> mapStatusToResponseType (status (plain 500)) = Error
   \<and> fst (snd (safeFetch ((options ''u'')\<lparr>retryCount := Some 3, retryOnStatusCode := Some True\<rparr>)
        (\<lambda>i. answers (plain 500)) False)) = Returned (HttpResponse (plain 500) StatusText)
   \<and> fetch_calls (fst (safeFetch ((options ''u'')\<lparr>retryCount := Some 3, retryOnStatusCode := Some True\<rparr>)
        (\<lambda>i. answers (plain 500)) False)) = 3
   \<and> failed (HttpResponse (plain 500) StatusText)
   \<and> snd (attempt_body (destructure ((options ''u'')\<lparr>retryOnStatusCode := Some True\<rparr>))
        (answers (plain 500)) 0 False) = Continue
   \<and> snd (attempt_body (destructure (options ''u'')) (answers (plain 500)) 0 False)
       = Done (Returned (HttpResponse (plain 500) StatusText))
   \<and> snd (attempt_body (destructure ((options ''u'')\<lparr>retryOnStatusCode := Some True\<rparr>))
        (answers (plain 500)) 2 False) = Done (Returned (HttpResponse (plain 500) StatusText))"
  using server_error_retry [of "(options ''u'')\<lparr>retryCount := Some 3, retryOnStatusCode := Some True\<rparr>"
      "\<lambda>i. answers (plain 500)" "\<lambda>i. plain 500" "HttpResponse (plain 500) StatusText"
      "plain 500" "HttpResponse (plain 500) StatusText"
      "destructure ((options ''u'')\<lparr>retryOnStatusCode := Some True\<rparr>)" 0]
    server_error_retry [of "(options ''u'')\<lparr>retryCount := Some 3, retryOnStatusCode := Some True\<rparr>"
      "\<lambda>i. answers (plain 500)" "\<lambda>i. plain 500" "HttpResponse (plain 500) StatusText"
      "plain 500" "HttpResponse (plain 500) StatusText"
      "destructure (options ''u'')" 0]
    server_error_retry [of "(options ''u'')\<lparr>retryCount := Some 3, retryOnStatusCode := Some True\<rparr>"
      "\<lambda>i. answers (plain 500)" "\<lambda>i. plain 500" "HttpResponse (plain 500) StatusText"
      "plain 500" "HttpResponse (plain 500) StatusText"
      "destructure ((options ''u'')\<lparr>retryOnStatusCode := Some True\<rparr>)" 2]
  by (simp add: destructure_def options_def or_default_def plain_def parseHttpErrorResponse_def
      HttpResponse_def isServerError_def mapStatusToResponseType_def Let_def)

text \<open>
  C5 as stated fails when the body of the last response cannot be read: the parser is
  awaited inside the \<open>try\<close>, its rejection lands in the \<open>catch\<close>, and the engine throws.
\<close>

theorem server_error_throws_counterexample:
  "fst (snd (safeFetch ((options ''u'')\<lparr>retryCount := Some 3, retryOnStatusCode := Some True\<rparr>)
       (\<lambda>i. answers (json_broken 500)) False)) =
     Threw (HttpFetchError (UnexpectedErrorAfter 3 ''Unexpected end of JSON input'') ''u''
       (Some (JsError ''SyntaxError'' ''Unexpected end of JSON input'')))"
  by (simp add: engine_eval)

section \<open>C6: no retry on a client-error status\<close>

text \<open>
  C6, as amended. For every request, whatever its attempt budget, with a token that is not
  tripped: if the first network call is answered in time with a client-error status and the
  error parser reads the body, the engine calls the network primitive exactly once and
  returns the parsed wrapper with that status; and at every attempt index such a response
  ends the loop.
\<close>

theorem client_error_single_attempt:
  "(isClientError (status r) \<and> net 0 = answers r \<and> parseHttpErrorResponse r = Inr w
    \<longrightarrow> fst (snd (safeFetch opts net False)) = Returned w
        \<and> fetch_calls (fst (safeFetch opts net False)) = 1
        \<and> status_getter w = status r \<and> clientError w)
   \<and> (isClientError (status r) \<and> parseHttpErrorResponse r = Inr w
    \<longrightarrow> snd (attempt_body L (answers r) i False) = Done (Returned w))"
proof (intro conjI impI)
  assume h: "isClientError (status r) \<and> net 0 = answers r \<and> parseHttpErrorResponse r = Inr w"
  then have e: "mapStatusToResponseType (status r) = Error"
    by (simp add: isClientError_def mapStatusToResponseType_def)
  have d: "snd (attempt_body (destructure opts) (net 0) 0 False) = Done (Returned w)"
    using h e step_error_status [of r w "destructure opts" 0] by (simp add: attempt_body_answers)
  have lt: "int 0 < l_retryCount (destructure opts)"
    using destructure_budget [of opts] by simp
  have a: "attempts (destructure opts) net 0 False =
      (fst (attempt_body (destructure opts) (net 0) 0 False), Returned w, False)"
    using attempts_step_done [where net = net and i = 0, OF lt d] h by simp
  from h have w: "response w = r" by (simp add: parse_wraps)
  show "fst (snd (safeFetch opts net False)) = Returned w"
    using a by (simp add: safeFetch_def)
  show "fetch_calls (fst (safeFetch opts net False)) = 1"
    using a by (simp add: safeFetch_def attempt_body_fetch_calls)
  show "status_getter w = status r"
    using w by (simp add: status_getter_def statusCode_def)
  show "clientError w"
    using w h by (simp add: clientError_def statusCode_def)
next
  assume h: "isClientError (status r) \<and> parseHttpErrorResponse r = Inr w"
  then have e: "mapStatusToResponseType (status r) = Error"
    by (simp add: isClientError_def mapStatusToResponseType_def)
  show "snd (attempt_body L (answers r) i False) = Done (Returned w)"
    using h e step_error_status [of r w L i] by (simp add: attempt_body_answers)
qed

theorem client_error_single_attempt_witness:
  "isClientError (status (plain 404))
   \<and> (\<lambda>i. answers (plain 404)) 0 = answers (plain 404)
   \<and> parseHttpErrorResponse (plain 404) = Inr (HttpResponse (plain 404) StatusText)
   \<and> fst (snd (safeFetch ((options ''u'')\<lparr>retryCount := Some 3\<rparr>) (\<lambda>i. answers (plain 404)) False))
       = Returned (HttpResponse (plain 404) StatusText)
   \<and> fetch_calls (fst (safeFetch ((options ''u'')\<lparr>retryCount := Some 3\<rparr>)
        (\<lambda>i. answers (plain 404)) False)) = 1
   \<and> status_getter (HttpResponse (plain 404) StatusText) = 404
   \<and> clientError (HttpResponse (plain 404) StatusText)"
  using client_error_single_attempt [of "plain 404" "\<lambda>i. answers (plain 404)"
      "HttpResponse (plain 404) StatusText" "(options ''u'')\<lparr>retryCount := Some 3\<rparr>"]
  by (simp add: plain_def parseHttpErrorResponse_def HttpResponse_def isClientError_def)

text \<open>
  C6 as stated fails when the body cannot be read: a 404 that announces JSON and carries a
  body that is not JSON is fetched three times, and the engine throws.
\<close>

theorem client_error_retried_counterexample:
  "fetch_calls (fst (safeFetch ((options ''u'')\<lparr>retryCount := Some 3\<rparr>)
       (\<lambda>i. answers (json_broken 404)) False)) = 3
   \<and> fst (snd (safeFetch ((options ''u'')\<lparr>retryCount := Some 3\<rparr>)
       (\<lambda>i. answers (json_broken 404)) False)) =
     Threw (HttpFetchError (UnexpectedErrorAfter 3 ''Unexpected end of JSON input'') ''u''
       (Some (JsError ''SyntaxError'' ''Unexpected end of JSON input'')))"
  by (simp add: engine_eval)

section \<open>C7: the classifier\<close>

text \<open>
  C7. The classifier is total on the integers and puts every status code in exactly one
  band: \<open>[100,200)\<close> is info, \<open>[200,300)\<close> is success, \<open>[300,400)\<close> is redirect, and every
  other integer is in the error band. Inside the error band \<open>isClientError\<close> marks
  \<open>[400,500)\<close> and \<open>isServerError\<close> marks \<open>[500,600)\<close>; the two never hold together, and
  neither holds outside the error band. From 100 upwards the six ranges leave no gap.
\<close>

theorem classifier_bands:
  "(mapStatusToResponseType c = Info \<longleftrightarrow> 100 \<le> c \<and> c < 200)
   \<and> (mapStatusToResponseType c = Success \<longleftrightarrow> 200 \<le> c \<and> c < 300)
   \<and> (mapStatusToResponseType c = Redirect \<longleftrightarrow> 300 \<le> c \<and> c < 400)
   \<and> (mapStatusToResponseType c = Error \<longleftrightarrow> c < 100 \<or> 400 \<le> c)
   \<and> mapStatusToResponseType c \<noteq> Warning
   \<and> (isClientError c \<longleftrightarrow> 400 \<le> c \<and> c < 500)
   \<and> (isServerError c \<longleftrightarrow> 500 \<le> c \<and> c < 600)
   \<and> (isClientError c \<longrightarrow> mapStatusToResponseType c = Error \<and> \<not> isServerError c)
   \<and> (isServerError c \<longrightarrow> mapStatusToResponseType c = Error \<and> \<not> isClientError c)
   \<and> (100 \<le> c \<longrightarrow>
        mapStatusToResponseType c = Info \<or> mapStatusToResponseType c = Success
        \<or> mapStatusToResponseType c = Redirect \<or> isClientError c \<or> isServerError c
        \<or> (600 \<le> c \<and> mapStatusToResponseType c = Error))"
  unfolding mapStatusToResponseType_def isClientError_def isServerError_def
  by auto

theorem classifier_bands_witness:
  "isClientError 404 \<and> mapStatusToResponseType 404 = Error \<and> \<not> isServerError 404
   \<and> isServerError 503 \<and> mapStatusToResponseType 503 = Error \<and> \<not> isClientError 503
   \<and> (100::int) \<le> 700 \<and> mapStatusToResponseType 700 = Error
   \<and> mapStatusToResponseType 204 = Success"
  using classifier_bands [of 404] classifier_bands [of 503] classifier_bands [of 700]
    classifier_bands [of 204]
  by (simp add: isClientError_def isServerError_def)

section \<open>C8: the predicates of the wrapper\<close>

text \<open>
  What the predicates of a wrapper built over a wire response compute: the status is the
  code of the wire response; \<open>succeeded\<close>, \<open>clientError\<close> and \<open>serverError\<close> depend on
  that code alone and agree with the classifier; \<open>failed\<close> holds exactly when the code is
  300 or more and the wire response is not flagged as redirected.
\<close>

lemma wrapper_predicates:
  "status_getter (HttpResponse r d) = status r
   \<and> (succeeded (HttpResponse r d) \<longleftrightarrow> mapStatusToResponseType (status r) = Success)
   \<and> (clientError (HttpResponse r d) \<longleftrightarrow> isClientError (status r))
   \<and> (serverError (HttpResponse r d) \<longleftrightarrow> isServerError (status r))
   \<and> (failed (HttpResponse r d) \<longleftrightarrow> 300 \<le> status r \<and> \<not> redirected r)"
  unfolding status_getter_def succeeded_def clientError_def serverError_def failed_def
    serverInfo_def redirected_getter_def statusCode_def HttpResponse_def
    mapStatusToResponseType_def
  by auto

text \<open>
  C8. The code at a wire response with status 404 that was reached through a redirect
  (\<open>response.redirected\<close> is true): the code is in the classifier's error band and
  \<open>clientError\<close> holds, and yet \<open>failed\<close> is false; over the same response without the
  flag \<open>failed\<close> is true. So \<open>failed\<close> is not a function of the status code alone. The
  getter \<open>redirected\<close> reads the flag of the platform's response, not the status.
\<close>

theorem wrapper_failed_after_redirect:
  "mapStatusToResponseType 404 = Error
   \<and> status_getter (HttpResponse ((plain 404)\<lparr>redirected := True\<rparr>) StatusText) = 404
   \<and> clientError (HttpResponse ((plain 404)\<lparr>redirected := True\<rparr>) StatusText)
   \<and> \<not> failed (HttpResponse ((plain 404)\<lparr>redirected := True\<rparr>) StatusText)
   \<and> failed (HttpResponse (plain 404) StatusText)"
  by (simp add: mapStatusToResponseType_def failed_def succeeded_def serverInfo_def clientError_def
      isClientError_def redirected_getter_def statusCode_def status_getter_def HttpResponse_def
      plain_def)

section \<open>C9: a response supplied in the REQUEST phase\<close>

text \<open>
  C9, as amended. For every \<open>handle()\<close> call on a request that is not cancelled in which
  the REQUEST dispatch returns with a response supplied by a listener, the network
  primitive is never called and BEFORE_SEND is never dispatched. If moreover the REQUEST
  phase completes (the default action was not prevented, or the interception promise was
  resolved), no RESPONSE listener replaces the response, and neither the RESPONSE nor the
  TERMINATE dispatch raises, then RESPONSE is dispatched once and \<open>handle()\<close> resolves with
  exactly the supplied response.
\<close>

theorem short_circuit:
  assumes nc: "\<not> p_isCancelled s" and nr: "raises (on_request env) = None"
    and sup: "supplied (on_request env) = Some w"
  shows "fetch_calls (fst (snd (handle s env))) = 0
    \<and> dispatches BEFORE_SEND (fst (snd (handle s env))) = 0
    \<and> (request_phase_completes env \<and> raises (on_response env) = None
         \<and> supplied (on_response env) = None \<and> raises (on_terminate env) = None
       \<longrightarrow> snd (snd (handle s env)) = Returned w
           \<and> dispatches RESPONSE (fst (snd (handle s env))) = 1)"
proof -
  obtain s1 tr1 ended where r: "dispatchRequestEvent s env = (s1, tr1, ended)"
    using prod_cases3 by blast
  have t1: "tr1 = [Dispatch REQUEST None None]"
    using request_phase_trace [of s env] r by simp
  show ?thesis
  proof (cases ended)
    case (Some out)
    have "\<not> request_phase_completes env"
      using request_phase_passes [of env s] r Some by auto
    with handle_request_ended [OF nc] r Some t1 show ?thesis by simp
  next
    case None
    obtain tr5 res where d: "dispatchResponseEvent env w = (tr5, res)"
      by (cases "dispatchResponseEvent env w")
    have c5: "fetch_calls tr5 = 0" "dispatches BEFORE_SEND tr5 = 0" "dispatches RESPONSE tr5 = 1"
      using response_event_counts [of env w] d by simp_all
    show ?thesis
    proof (cases res)
      case (Inl e)
      then have t: "try_block s1 env = (s1, [Started] @ tr5, Some w, Raised e)"
        using d by (simp add: try_block_supplied [OF sup] response_phase_def)
      obtain tr3 fr' err' completion where c: "catch_block env (Some w) e = (tr3, fr', err', completion)"
        by (cases "catch_block env (Some w) e") auto
      have c3: "fetch_calls tr3 = 0" "dispatches BEFORE_SEND tr3 = 0"
        using catch_block_counts [of env "Some w" e] c by simp_all
      have "raises (on_response env) \<noteq> None"
        using d Inl by (auto simp: dispatchResponseEvent_def Let_def split: option.splits)
      with handle_raised [OF nc _ t c] r None t1 c5 c3 show ?thesis
        by (auto simp: finally_block_counts)
    next
      case (Inr w')
      then have t: "try_block s1 env = (s1, [Started] @ tr5, Some w', Normal w')"
        using d by (simp add: try_block_supplied [OF sup] response_phase_def)
      have w': "raises (on_response env) = None \<and> supplied (on_response env) = None \<longrightarrow> w' = w"
        using d Inr by (auto simp: dispatchResponseEvent_def Let_def or_default_def split: option.splits)
      have f: "raises (on_terminate env) = None \<longrightarrow>
          snd (finally_block env (Some w') None (Returned w')) = Returned w'"
        by (simp add: finally_block_def)
      from handle_normal [OF nc _ t] r None t1 c5 w' f show ?thesis
        by (auto simp: finally_block_counts)
    qed
  qed
qed

theorem short_circuit_witness:
  "\<not> p_isCancelled (construct (options ''u''))
   \<and> raises (on_request ((calm (\<lambda>i. answers (plain 200)))
         \<lparr>on_request := quiet\<lparr>supplied := Some (HttpResponse (plain 200) (Custom 7))\<rparr>\<rparr>)) = None
   \<and> supplied (on_request ((calm (\<lambda>i. answers (plain 200)))
         \<lparr>on_request := quiet\<lparr>supplied := Some (HttpResponse (plain 200) (Custom 7))\<rparr>\<rparr>))
       = Some (HttpResponse (plain 200) (Custom 7))
   \<and> request_phase_completes ((calm (\<lambda>i. answers (plain 200)))
         \<lparr>on_request := quiet\<lparr>supplied := Some (HttpResponse (plain 200) (Custom 7))\<rparr>\<rparr>)
   \<and> raises (on_response ((calm (\<lambda>i. answers (plain 200)))
         \<lparr>on_request := quiet\<lparr>supplied := Some (HttpResponse (plain 200) (Custom 7))\<rparr>\<rparr>)) = None
   \<and> supplied (on_response ((calm (\<lambda>i. answers (plain 200)))
         \<lparr>on_request := quiet\<lparr>supplied := Some (HttpResponse (plain 200) (Custom 7))\<rparr>\<rparr>)) = None
   \<and> raises (on_terminate ((calm (\<lambda>i. answers (plain 200)))
         \<lparr>on_request := quiet\<lparr>supplied := Some (HttpResponse (plain 200) (Custom 7))\<rparr>\<rparr>)) = None
   \<and> fetch_calls (fst (snd (handle (construct (options ''u''))
        ((calm (\<lambda>i. answers (plain 200)))
           \<lparr>on_request := quiet\<lparr>supplied := Some (HttpResponse (plain 200) (Custom 7))\<rparr>\<rparr>)))) = 0
   \<and> dispatches BEFORE_SEND (fst (snd (handle (construct (options ''u''))
        ((calm (\<lambda>i. answers (plain 200)))
           \<lparr>on_request := quiet\<lparr>supplied := Some (HttpResponse (plain 200) (Custom 7))\<rparr>\<rparr>)))) = 0
   \<and> snd (snd (handle (construct (options ''u''))
        ((calm (\<lambda>i. answers (plain 200)))
           \<lparr>on_request := quiet\<lparr>supplied := Some (HttpResponse (plain 200) (Custom 7))\<rparr>\<rparr>)))
       = Returned (HttpResponse (plain 200) (Custom 7))"
  using short_circuit [of "construct (options ''u'')"
      "(calm (\<lambda>i. answers (plain 200)))
         \<lparr>on_request := quiet\<lparr>supplied := Some (HttpResponse (plain 200) (Custom 7))\<rparr>\<rparr>"
      "HttpResponse (plain 200) (Custom 7)"]
  by (simp add: construct_def calm_def quiet_def request_phase_completes_def)

text \<open>
  C9 as stated fails when the listener that supplies the response also prevents the default
  action and nothing settles the interception promise: \<open>handle()\<close> waits for it and never
  resolves.
\<close>

theorem short_circuit_counterexample:
  "snd (snd (handle (construct (options ''u''))
      ((calm (\<lambda>i. answers (plain 200)))
         \<lparr>on_request := quiet\<lparr>supplied := Some (HttpResponse (plain 200) (Custom 7)), prevents := True\<rparr>\<rparr>)))
     = Pending"
  by (simp add: handle_eval)

section \<open>C10: the ERROR event is dispatched twice\<close>




end
